theory Spec2Isabelle
  imports Main
begin

section \<open>The module invoker: two scripts for Node.js\<close>

text \<open>
  The repository holds two variants of one command-line script, \<^verbatim>\<open>run_wasm.js\<close> and a
  second file referred to here as \<^verbatim>\<open>part_000\<close>. Each reads a WebAssembly module from the
  path given on the command line, instantiates it, looks an entry point up among a few
  hard-wired export names, calls it with the command-line arguments parsed by
  \<^verbatim>\<open>parseInt(_, 10)\<close> and prints \<^verbatim>\<open>Result: <value>\<close>.

  The host (Node.js: the file system, the WebAssembly engine, the console, the process
  object) is a parameter of the model. Everything a script does to the host is recorded
  in a list of effects, and every \<^verbatim>\<open>throw\<close> is a value.
\<close>

subsection \<open>Values, errors, effects\<close>

text \<open>
  A JavaScript string is a list of UTF-16 code units. The command-line arguments and the
  paths are such strings; \<open>ascii\<close> writes one down from its ASCII text. Identifiers,
  export names and error messages, which the scripts only ever spell in ASCII, stay
  Isabelle strings.
\<close>

type_synonym jsstring = "nat list"

definition ascii :: "string \<Rightarrow> jsstring" where
  "ascii s = map of_char s"

text \<open>
  The values that cross the call boundary of an export and that \<^verbatim>\<open>console.log\<close> prints.
  \<open>Number m e\<close> is the finite double \<open>m \<cdot> 2\<^sup>e\<close> (so \<open>Number 5 0\<close> is 5 and
  \<open>Number 5 (- 1)\<close> is 2.5); negative zero, the infinities and \<^verbatim>\<open>NaN\<close> are the other
  numbers. \<open>BigInt\<close> is what a 64-bit integer result comes back as, \<open>Undefined\<close> what a
  function without result returns, and \<open>Reference\<close> stands for any other value (a
  reference, \<^verbatim>\<open>null\<close>, the array of several results), known by an identifier only.
\<close>

datatype jsval =
    Number int int
  | NegativeZero
  | Infinity
  | NegativeInfinity
  | NaN
  | BigInt int
  | Undefined
  | Reference nat

datatype error =
    SyntaxError string
  | ReferenceError string
  | TypeError string
  | Error string
  | HostError string

text \<open>
  \<open>SyntaxError x\<close>: the script did not parse, \<open>x\<close> the unexpected identifier.
  \<open>ReferenceError x\<close>: the identifier \<open>x\<close> has no binding. \<open>Error m\<close>: the script's own
  \<^verbatim>\<open>throw new Error(m)\<close>. \<open>HostError\<close>: whatever the file system, the WebAssembly
  engine or an export throws.
\<close>

type_synonym bytes = "nat list"

type_synonym export_fn = "jsval list \<Rightarrow> error + jsval"

datatype export = Function export_fn | NotCallable

type_synonym exports = "string \<rightharpoonup> export"

record host =
  argv :: "jsstring list"
  readFileSync :: "jsstring \<Rightarrow> error + bytes"
  instantiate :: "bytes \<Rightarrow> error + exports"

text \<open>
  \<open>Logged l v\<close> is one line on stdout, written by \<^verbatim>\<open>console.log(l, v)\<close>: the label \<open>l\<close>, a
  space and the console's rendering of the value \<open>v\<close>. How the console renders a value
  is left to the host; the model keeps the value.
\<close>

datatype effect =
    FileRead jsstring
  | Instantiate bytes
  | Called "jsval list"
  | Logged string jsval

type_synonym 'a js = "effect list \<times> (error + 'a)"

definition js_return :: "'a \<Rightarrow> 'a js" where
  "js_return v = ([], Inr v)"

definition js_throw :: "error \<Rightarrow> 'a js" where
  "js_throw e = ([], Inl e)"

definition js_bind :: "'a js \<Rightarrow> ('a \<Rightarrow> 'b js) \<Rightarrow> 'b js" where
  "js_bind m k =
     (case m of
        (es, Inl e) \<Rightarrow> (es, Inl e)
      | (es, Inr v) \<Rightarrow> (case k v of (es', r) \<Rightarrow> (es @ es', r)))"

text \<open>What a finished run shows: the lines on stdout, the calls made, the exit status.\<close>

primrec logged :: "effect \<Rightarrow> (string \<times> jsval) list" where
  "logged (FileRead p) = []"
| "logged (Instantiate b) = []"
| "logged (Called xs) = []"
| "logged (Logged l v) = [(l, v)]"

primrec called :: "effect \<Rightarrow> jsval list list" where
  "called (FileRead p) = []"
| "called (Instantiate b) = []"
| "called (Called xs) = [xs]"
| "called (Logged l v) = []"

definition stdout :: "'a js \<Rightarrow> (string \<times> jsval) list" where
  "stdout r = concat (map logged (fst r))"

definition calls :: "'a js \<Rightarrow> jsval list list" where
  "calls r = concat (map called (fst r))"

text \<open>
  Neither script catches anything or sets an exit code. A script that does not parse, and
  (Node's default since version 15) a rejected promise nobody handles, end the process
  with status 1; a run that completes ends it with status 0.
\<close>

definition exit_status :: "'a js \<Rightarrow> nat" where
  "exit_status r = (case snd r of Inl e \<Rightarrow> 1 | Inr v \<Rightarrow> 0)"

subsection \<open>The host's operations\<close>

text \<open>
  \<^verbatim>\<open>fs.readFileSync(path)\<close>: an \<^verbatim>\<open>undefined\<close> path (no such command-line argument) is a
  TypeError before the file system is touched.
\<close>

definition fs_readFileSync :: "host \<Rightarrow> jsstring option \<Rightarrow> bytes js" where
  "fs_readFileSync h path =
     (case path of
        None \<Rightarrow> js_throw (TypeError ''ERR_INVALID_ARG_TYPE'')
      | Some p \<Rightarrow> ([FileRead p], readFileSync h p))"

text \<open>\<^verbatim>\<open>await WebAssembly.instantiate(bytes, {})\<close>, then \<^verbatim>\<open>.instance.exports\<close>.\<close>

definition WebAssembly_instantiate :: "host \<Rightarrow> bytes \<Rightarrow> exports js" where
  "WebAssembly_instantiate h b = ([Instantiate b], instantiate h b)"

text \<open>\<^verbatim>\<open>fn(...)\<close>: calling an export that is not a function (a memory, a table) throws.\<close>

definition invoke :: "export \<Rightarrow> jsval list \<Rightarrow> jsval js" where
  "invoke fn args =
     (case fn of
        Function f \<Rightarrow> ([Called args], f args)
      | NotCallable \<Rightarrow> js_throw (TypeError ''fn is not a function''))"

text \<open>\<^verbatim>\<open>console.log('Result:', res)\<close>.\<close>

definition console_log_Result :: "jsval \<Rightarrow> unit js" where
  "console_log_Result res = ([Logged ''Result:'' res], Inr ())"

subsection \<open>parseInt with radix 10\<close>

text \<open>
  ECMAScript's \<^verbatim>\<open>parseInt(string, 10)\<close>: leading white space is skipped, one sign is read,
  then the longest run of decimal digits; what follows is ignored. No digit at all gives
  \<^verbatim>\<open>NaN\<close>. It never throws. With the radix given as 10 a prefix \<^verbatim>\<open>0x\<close> is not
  special: the digit run of \<^verbatim>\<open>0x10\<close> is \<^verbatim>\<open>0\<close>.

  The result is a Number, that is a double: the integer the digits spell, rounded to 53
  significant bits, to the nearest and on a tie to the even one; \<^verbatim>\<open>Infinity\<close> from
  \<open>2\<^sup>1\<^sup>0\<^sup>2\<^sup>4\<close> on; negative zero for a minus sign before zero. (ECMAScript also lets an
  implementation read the digits after the twentieth as 0; V8, which Node runs on, rounds
  the digits as they stand.)
\<close>

definition StrWhiteSpaceChar :: "nat \<Rightarrow> bool" where
  "StrWhiteSpaceChar c =
     (c \<in> set [0x09, 0x0A, 0x0B, 0x0C, 0x0D, 0x20, 0xA0, 0x1680, 0x2000, 0x2001, 0x2002,
               0x2003, 0x2004, 0x2005, 0x2006, 0x2007, 0x2008, 0x2009, 0x200A, 0x2028,
               0x2029, 0x202F, 0x205F, 0x3000, 0xFEFF])"

definition is_digit :: "nat \<Rightarrow> bool" where
  "is_digit c = (48 \<le> c \<and> c \<le> 57)"

definition digit_value :: "nat \<Rightarrow> nat" where
  "digit_value c = c - 48"

definition decimal_value :: "jsstring \<Rightarrow> nat" where
  "decimal_value z = foldl (\<lambda>a c. 10 * a + digit_value c) 0 z"

text \<open>The number of binary digits of \<open>n\<close>.\<close>

function bit_length :: "nat \<Rightarrow> nat" where
  "bit_length n = (if n = 0 then 0 else Suc (bit_length (n div 2)))"
  by pat_completeness auto
termination
  by (relation "measure id") auto

declare bit_length.simps [simp del]

text \<open>
  The double nearest to the natural number \<open>n\<close>, as a natural number; \<open>None\<close> when it is
  beyond the finite doubles. Below \<open>2\<^sup>5\<^sup>3\<close> every integer is a double. Above, \<open>n\<close> is
  \<open>q \<cdot> 2\<^sup>e + r\<close> with \<open>q\<close> of 53 bits, and \<open>q\<close> goes up by one when \<open>r\<close> is more than half of
  \<open>2\<^sup>e\<close>, or exactly half with \<open>q\<close> odd.
\<close>

definition round_to_double :: "nat \<Rightarrow> nat option" where
  "round_to_double n =
     (if n < 2 ^ 53 then Some n
      else let e = bit_length n - 53;
               q = n div 2 ^ e;
               r = n mod 2 ^ e;
               half = 2 ^ (e - 1);
               q' = (if half < r \<or> (r = half \<and> odd q) then q + 1 else q);
               v = q' * 2 ^ e
           in if v < 2 ^ 1024 then Some v else None)"

definition parseInt10 :: "jsstring \<Rightarrow> jsval" where
  "parseInt10 s =
     (let t = dropWhile StrWhiteSpaceChar s;
          negative = (case t of [] \<Rightarrow> False | c # r \<Rightarrow> c = 45);
          u = (case t of [] \<Rightarrow> [] | c # r \<Rightarrow> if c = 43 \<or> c = 45 then r else t);
          z = takeWhile is_digit u
      in if z = [] then NaN
         else case round_to_double (decimal_value z) of
                None \<Rightarrow> (if negative then NegativeInfinity else Infinity)
              | Some v \<Rightarrow>
                  if negative then (if v = 0 then NegativeZero else Number (- int v) 0)
                  else Number (int v) 0)"

subsection \<open>Identifiers, destructuring, truthiness\<close>

text \<open>
  The names Node.js binds in every CommonJS module: the ECMAScript globals, Node's own
  globals and the parameters of the module wrapper.
\<close>

definition node_globals :: "string list" where
  "node_globals =
     [''globalThis'', ''Infinity'', ''NaN'', ''undefined'', ''eval'', ''isFinite'', ''isNaN'',
      ''parseFloat'', ''parseInt'', ''decodeURI'', ''decodeURIComponent'', ''encodeURI'',
      ''encodeURIComponent'', ''escape'', ''unescape'', ''AggregateError'', ''Array'',
      ''ArrayBuffer'', ''Atomics'', ''BigInt'', ''BigInt64Array'', ''BigUint64Array'',
      ''Boolean'', ''DataView'', ''Date'', ''Error'', ''EvalError'', ''FinalizationRegistry'',
      ''Float32Array'', ''Float64Array'', ''Function'', ''Int8Array'', ''Int16Array'',
      ''Int32Array'', ''Intl'', ''JSON'', ''Map'', ''Math'', ''Number'', ''Object'', ''Promise'',
      ''Proxy'', ''RangeError'', ''ReferenceError'', ''Reflect'', ''RegExp'', ''Set'',
      ''SharedArrayBuffer'', ''String'', ''Symbol'', ''SyntaxError'', ''TypeError'',
      ''Uint8Array'', ''Uint8ClampedArray'', ''Uint16Array'', ''Uint32Array'', ''URIError'',
      ''WeakMap'', ''WeakRef'', ''WeakSet'', ''WebAssembly'',
      ''AbortController'', ''AbortSignal'', ''Blob'', ''BroadcastChannel'', ''Buffer'',
      ''DOMException'', ''Event'', ''EventTarget'', ''FormData'', ''Headers'',
      ''MessageChannel'', ''MessageEvent'', ''MessagePort'', ''Request'', ''Response'',
      ''TextDecoder'', ''TextEncoder'', ''URL'', ''URLSearchParams'', ''atob'', ''btoa'',
      ''clearImmediate'', ''clearInterval'', ''clearTimeout'', ''console'', ''crypto'',
      ''fetch'', ''global'', ''navigator'', ''performance'', ''process'', ''queueMicrotask'',
      ''setImmediate'', ''setInterval'', ''setTimeout'', ''structuredClone'',
      ''exports'', ''require'', ''module'', ''__filename'', ''__dirname'']"

text \<open>
  Evaluating the identifier \<open>x\<close>. \<open>names\<close> are the names bound where \<open>x\<close> stands: the
  globals, the module's \<^verbatim>\<open>const fs\<close> and the \<^verbatim>\<open>const\<close>s of the function initialised so far
  (a \<^verbatim>\<open>const\<close> read before its initialisation is a ReferenceError as well). \<open>typed\<close> gives
  the values of those among them that have the type the place needs; a name bound to
  something else ends in a TypeError.
\<close>

definition ident :: "string list \<Rightarrow> (string \<times> 'a) list \<Rightarrow> string \<Rightarrow> 'a js" where
  "ident names typed x =
     (if x \<notin> set names then js_throw (ReferenceError x)
      else case map_of typed x of
             None \<Rightarrow> js_throw (TypeError x)
           | Some v \<Rightarrow> js_return v)"

text \<open>An element of an array pattern: \<^verbatim>\<open>undefined\<close> beyond the end of the array.\<close>

definition element :: "'a list \<Rightarrow> nat \<Rightarrow> 'a option" where
  "element xs i = (if i < length xs then Some (xs ! i) else None)"

text \<open>\<^verbatim>\<open>a || b\<close> on operands that are an object (truthy) or \<^verbatim>\<open>undefined\<close>.\<close>

definition logical_or :: "'a option \<Rightarrow> 'a option \<Rightarrow> 'a option" where
  "logical_or a b = (case a of Some x \<Rightarrow> Some x | None \<Rightarrow> b)"

text \<open>A string-or-undefined as a condition: \<^verbatim>\<open>undefined\<close> and the empty string are falsy.\<close>

definition truthy :: "jsstring option \<Rightarrow> bool" where
  "truthy s = (case s of None \<Rightarrow> False | Some t \<Rightarrow> t \<noteq> [])"

subsection \<open>Loading a script\<close>

text \<open>
  Node parses the whole file before it runs the first statement. The part of the grammar
  that matters here: on one line, an identifier cannot follow an identifier, unless the
  first is a keyword that takes an operand or a declaration, or the second is a keyword
  operator.
\<close>

datatype token = Name string | Punctuator string | StringLiteral string | NumericLiteral nat

definition may_precede_name :: "string list" where
  "may_precede_name =
     [''const'', ''let'', ''var'', ''function'', ''class'', ''async'', ''await'', ''yield'',
      ''new'', ''throw'', ''return'', ''typeof'', ''void'', ''delete'', ''case'', ''else'',
      ''do'', ''in'', ''of'', ''instanceof'', ''extends'', ''static'', ''get'', ''set'',
      ''import'', ''export'', ''default'']"

definition may_follow_name :: "string list" where
  "may_follow_name = [''in'', ''of'', ''instanceof'', ''from'', ''as'']"

fun unexpected_identifier :: "token list \<Rightarrow> string option" where
  "unexpected_identifier (Name a # Name b # ts) =
     (if a \<in> set may_precede_name \<or> b \<in> set may_follow_name
      then unexpected_identifier (Name b # ts) else Some b)"
| "unexpected_identifier (t # ts) = unexpected_identifier ts"
| "unexpected_identifier [] = None"

fun parse :: "token list list \<Rightarrow> unit js" where
  "parse [] = js_return ()"
| "parse (l # ls) =
     (case unexpected_identifier l of
        Some x \<Rightarrow> js_throw (SyntaxError x)
      | None \<Rightarrow> parse ls)"

subsection \<open>The script \<^verbatim>\<open>run_wasm.js\<close>\<close>

text \<open>
  The statements of \<^verbatim>\<open>run_wasm.js\<close> as the parser sees them, one list of tokens for each
  line that holds code (lines 1, 3 to 7 and 10 to 14).
\<close>

definition run_wasm_source :: "token list list" where
  "run_wasm_source =
     [[Name ''const'', Name ''fs'', Punctuator ''='', Name ''require'', Punctuator ''('',
       StringLiteral ''fs'', Punctuator '')'', Punctuator '';''],
      [Punctuator ''('', Name ''async'', Punctuator ''('', Punctuator '')'', Punctuator ''=>'',
       Punctuator ''{''],
      [Name ''const'', Punctuator ''['', Punctuator '','', Punctuator '','', Name ''wasmPath'',
       Punctuator '','', Name ''argStr'', Punctuator '']'', Punctuator ''='', Name ''progress'',
       Punctuator ''.'', Name ''argv'', Punctuator '';''],
      [Name ''const'', Name ''byters'', Punctuator ''='', Name ''fs'', Punctuator ''.'',
       Name ''readFileSync'', Punctuator ''('', Name ''wasmPath'', Punctuator '')'',
       Punctuator '';''],
      [Name ''const'', Punctuator ''{'', Name ''instance'', Punctuator ''}'', Punctuator ''='',
       Name ''await'', Name ''WebAssembly'', Punctuator ''.'', Name ''instantiate'',
       Punctuator ''('', Name ''bytes'', Punctuator '','', Punctuator ''{'', Punctuator ''}'',
       Punctuator '')'', Punctuator '';''],
      [Name ''const'', Name ''arg'', Punctuator ''='', Name ''argStr'', Punctuator ''?'',
       Name ''parseInt'', Punctuator ''('', Name ''argStr'', Punctuator '','', NumericLiteral 10,
       Punctuator '')'', Punctuator '':'', Name ''undefined'', Punctuator '';''],
      [Name ''const'', Name ''fn'', Punctuator ''='', Name ''instance'', Punctuator ''.'',
       Name ''exports'', Punctuator ''.'', Name ''main'', Punctuator ''||'', Name ''instance'',
       Punctuator ''.'', Name ''exports'', Punctuator ''.'', Name ''id'', Punctuator '';''],
      [Name ''if'', Punctuator ''('', Punctuator ''!'', Name ''fn'', Punctuator '')'',
       Name ''throw'', Name ''new'', Name ''Error'', Punctuator ''('',
       StringLiteral ''No exported function named main/id'', Punctuator '')'', Punctuator '';''],
      [Name ''const'', Name ''res'', Punctuator ''='', Punctuator ''('', Name ''arg'',
       Punctuator ''!=='', Name ''undefined'', Punctuator '')'', Punctuator ''?'', Name ''fn'',
       Punctuator ''('', Name ''arg'', Punctuator '')'', Punctuator '':'', Name ''fn'',
       Punctuator ''('', Punctuator '')'', Punctuator '';''],
      [Name ''console'', Punctuator ''.'', Name ''log'', Punctuator ''('',
       StringLiteral ''Result:'', Punctuator '','', Name ''res'', Punctuator '')'',
       Punctuator '';''],
      [Punctuator ''}'', Punctuator '')'', Punctuator ''('', Punctuator '')'', Punctuator '';'']]"

text \<open>
  Lines 7 to 13, from the point where \<^verbatim>\<open>instance\<close> and \<^verbatim>\<open>argStr\<close> are bound:
  \<^verbatim>\<open>
  const arg = argStr ? parseInt(argStr, 10) : undefined;
  const fn = instance.exports.main || instance.exports.id;
  if (!fn) throw new Error('No exported function named main/id');
  const res = (arg !== undefined) ? fn(arg) : fn();
  console.log('Result:', res);
  \<close>
\<close>

definition run_wasm_entry :: "exports \<Rightarrow> export option" where
  "run_wasm_entry instance_exports =
     logical_or (instance_exports ''main'') (instance_exports ''id'')"

definition run_wasm_resolved :: "exports \<Rightarrow> jsstring option \<Rightarrow> unit js" where
  "run_wasm_resolved instance_exports argStr =
     (let arg = (if truthy argStr then (case argStr of Some s \<Rightarrow> parseInt10 s | None \<Rightarrow> Undefined)
                 else Undefined)
      in case run_wasm_entry instance_exports of
           None \<Rightarrow> js_throw (Error ''No exported function named main/id'')
         | Some fn \<Rightarrow>
             js_bind (if arg \<noteq> Undefined then invoke fn [arg] else invoke fn [])
               console_log_Result)"

text \<open>
  The arguments the call on line 12 passes, as a list: \<^verbatim>\<open>fn(arg)\<close> when \<^verbatim>\<open>argStr\<close> is
  truthy, \<^verbatim>\<open>fn()\<close> when it is not.
\<close>

definition run_wasm_args :: "jsstring option \<Rightarrow> jsval list" where
  "run_wasm_args argStr =
     (case argStr of None \<Rightarrow> [] | Some s \<Rightarrow> if s = [] then [] else [parseInt10 s])"

text \<open>
  Lines 5 and 6, from the point where \<^verbatim>\<open>wasmPath\<close> and \<^verbatim>\<open>argStr\<close> are bound:
  \<^verbatim>\<open>
  const byters = fs.readFileSync(wasmPath);
  const { instance } = await WebAssembly.instantiate(bytes, {});
  \<close>
  The buffer is bound to \<^verbatim>\<open>byters\<close> and read as \<^verbatim>\<open>bytes\<close>.
\<close>

definition run_wasm_load ::
  "host \<Rightarrow> jsstring option \<Rightarrow> jsstring option \<Rightarrow> unit js" where
  "run_wasm_load h wasmPath argStr =
     js_bind (fs_readFileSync h wasmPath) (\<lambda>byters.
     js_bind (ident (node_globals @ [''fs'', ''wasmPath'', ''argStr'', ''byters''])
                [(''byters'', byters)] ''bytes'') (\<lambda>bytes.
     js_bind (WebAssembly_instantiate h bytes) (\<lambda>instance_exports.
     run_wasm_resolved instance_exports argStr)))"

text \<open>
  Line 4 and what follows: \<^verbatim>\<open>const [,, wasmPath, argStr] = progress.argv;\<close>
  The only object in scope that has an \<^verbatim>\<open>argv\<close> is \<^verbatim>\<open>process\<close>.
\<close>

definition run_wasm_body :: "host \<Rightarrow> unit js" where
  "run_wasm_body h =
     js_bind (ident (node_globals @ [''fs'']) [(''process'', argv h)] ''progress'')
       (\<lambda>progress_argv.
          run_wasm_load h (element progress_argv 2) (element progress_argv 3))"

definition run_wasm :: "host \<Rightarrow> unit js" where
  "run_wasm h = js_bind (parse run_wasm_source) (\<lambda>u. run_wasm_body h)"

subsection \<open>The script \<^verbatim>\<open>part_000\<close>\<close>

text \<open>
  The lines of \<^verbatim>\<open>part_000\<close> (1 and 3 to 12) as the parser sees them. The file as stored
  has a thirteenth line, a document separator that is no part of the script; it is left
  out.
\<close>

definition part_000_source :: "token list list" where
  "part_000_source =
     [[Name ''const'', Name ''fs'', Punctuator ''='', Name ''require'', Punctuator ''('',
       StringLiteral ''fs'', Punctuator '')'', Punctuator '';''],
      [Punctuator ''('', Name ''async'', Punctuator ''('', Punctuator '')'', Punctuator ''=>'',
       Punctuator ''{''],
      [Name ''const'', Punctuator ''['', Punctuator '','', Punctuator '','', Name ''wasPath'',
       Punctuator '','', Punctuator ''...'', Name ''argStrs'', Punctuator '']'', Punctuator ''='',
       Name ''process'', Punctuator ''.'', Name ''argv'', Punctuator '';''],
      [Name ''const'', Name ''bytes'', Punctuator ''='', Name ''fs'', Punctuator ''.'',
       Name ''readFileSync'', Punctuator ''('', Name ''wasmPath'', Punctuator '')'',
       Punctuator '';''],
      [Name ''const'', Punctuator ''{'', Name ''instance'', Punctuator ''}'', Punctuator ''='',
       Name ''await'', Name ''WebAssemblyinstantiate'', Punctuator ''('', Name ''bytes'',
       Punctuator '','', Punctuator ''{'', Punctuator ''}'', Punctuator '')'', Punctuator '';''],
      [Name ''coonst'', Name ''fn'', Punctuator ''='', Name ''instance'', Punctuator ''.'',
       Name ''exports'', Punctuator ''.'', Name ''main'', Punctuator ''||'', Name ''instance'',
       Punctuator ''.'', Name ''exports'', Punctuator ''.'', Name ''id'', Punctuator ''||'',
       Name ''instance'', Punctuator ''.'', Name ''exports'', Punctuator ''.'', Name ''add'',
       Punctuator '';''],
      [Name ''if'', Punctuator ''('', Punctuator ''!'', Name ''fn'', Punctuator '')'',
       Name ''throw'', Name ''new'', Name ''Error'', Punctuator ''('',
       StringLiteral ''No exported function (main/id/add) found'', Punctuator '')'',
       Punctuator '';''],
      [Name ''const'', Name ''args'', Punctuator ''='', Name ''argStrs'', Punctuator ''.'',
       Name ''map'', Punctuator ''('', Name ''n'', Punctuator ''=>'', Name ''parseInt'',
       Punctuator ''('', Name ''n'', Punctuator '','', NumericLiteral 10, Punctuator '')'',
       Punctuator '')'', Punctuator '';''],
      [Name ''const'', Name ''res'', Punctuator ''='', Name ''fn'', Punctuator ''('',
       Punctuator ''...'', Name ''args'', Punctuator '')'', Punctuator '';''],
      [Name ''console'', Punctuator ''.'', Name ''log'', Punctuator ''('',
       StringLiteral ''Result:'', Punctuator '','', Name ''res'', Punctuator '')'',
       Punctuator '';''],
      [Punctuator ''}'', Punctuator '')'', Punctuator ''('', Punctuator '')'', Punctuator '';'']]"

text \<open>
  The expression on the right of line 7:
  \<^verbatim>\<open>instance.exports.main || instance.exports.id || instance.exports.add\<close>
\<close>

definition part_000_entry :: "exports \<Rightarrow> export option" where
  "part_000_entry instance_exports =
     logical_or (logical_or (instance_exports ''main'') (instance_exports ''id''))
       (instance_exports ''add'')"

text \<open>
  Lines 8 to 11, from the point where \<^verbatim>\<open>fn\<close> and \<^verbatim>\<open>argStrs\<close> are bound:
  \<^verbatim>\<open>
  if (!fn) throw new Error('No exported function (main/id/add) found');
  const args = argStrs.map(n => parseInt(n, 10));
  const res = fn(...args);
  console.log('Result:', res);
  \<close>
\<close>

definition part_000_invoke :: "export option \<Rightarrow> jsstring list \<Rightarrow> unit js" where
  "part_000_invoke fn argStrs =
     (case fn of
        None \<Rightarrow> js_throw (Error ''No exported function (main/id/add) found'')
      | Some f \<Rightarrow>
          (let args = map parseInt10 argStrs
           in js_bind (invoke f args) console_log_Result))"

definition part_000_resolved :: "exports \<Rightarrow> jsstring list \<Rightarrow> unit js" where
  "part_000_resolved instance_exports argStrs =
     part_000_invoke (part_000_entry instance_exports) argStrs"

text \<open>
  Lines 4 to 6 and what follows, as they would run if the file parsed:
  \<^verbatim>\<open>
  const [,, wasPath, ...argStrs] = process.argv;
  const bytes = fs.readFileSync(wasmPath);
  const { instance } = await WebAssemblyinstantiate(bytes, {});
  \<close>
  The path is bound to \<^verbatim>\<open>wasPath\<close> and read as \<^verbatim>\<open>wasmPath\<close>; no identifier in scope is
  bound to the instantiation function, which is the member \<^verbatim>\<open>instantiate\<close> of
  \<^verbatim>\<open>WebAssembly\<close>.
\<close>

definition part_000_body :: "host \<Rightarrow> unit js" where
  "part_000_body h =
     js_bind (ident (node_globals @ [''fs'']) [(''process'', argv h)] ''process'')
       (\<lambda>process_argv.
     js_bind (js_return (element process_argv 2, drop 3 process_argv)) (\<lambda>(wasPath, argStrs).
     js_bind (ident (node_globals @ [''fs'', ''wasPath'', ''argStrs''])
                [(''wasPath'', wasPath)] ''wasmPath'') (\<lambda>wasmPath.
     js_bind (fs_readFileSync h wasmPath) (\<lambda>bytes.
     js_bind (ident (node_globals @ [''fs'', ''wasPath'', ''argStrs'', ''bytes''])
                [] ''WebAssemblyinstantiate'') (\<lambda>WebAssemblyinstantiate.
     js_bind (WebAssemblyinstantiate bytes) (\<lambda>instance_exports.
     part_000_resolved instance_exports argStrs))))))"

definition part_000 :: "host \<Rightarrow> unit js" where
  "part_000 h = js_bind (parse part_000_source) (\<lambda>u. part_000_body h)"

subsection \<open>The spec's export discovery\<close>

text \<open>
  The spec's words for the discovery step, to compare the scripts with: "select the first
  name in the configured preference list that is present" in the export table.
\<close>

fun first_present :: "string list \<Rightarrow> exports \<Rightarrow> export option" where
  "first_present [] table = None"
| "first_present (name # names) table =
     (case table name of Some fn \<Rightarrow> Some fn | None \<Rightarrow> first_present names table)"

subsection \<open>The spec's valid argument\<close>


subsection \<open>Example modules, command lines and hosts\<close>

text \<open>
  Exports of example modules over 32-bit integers. The engine converts each argument:
  a finite number is cut to its integral part and wrapped to 32 bits, a BigInt is a
  TypeError, and anything else reads as 0: the other numbers, \<^verbatim>\<open>undefined\<close> (which is
  what a missing argument is) and, in these examples, a reference.
\<close>

definition wrap32 :: "int \<Rightarrow> int" where
  "wrap32 n = (n + 2 ^ 31) mod 2 ^ 32 - 2 ^ 31"

definition ToInt32 :: "jsval \<Rightarrow> error + int" where
  "ToInt32 v =
     (case v of
        Number m e \<Rightarrow>
          Inr (wrap32 (if 0 \<le> e then m * 2 ^ nat e
                       else sgn m * (\<bar>m\<bar> div 2 ^ nat (- e))))
      | BigInt n \<Rightarrow> Inl (TypeError ''Cannot convert a BigInt value to a number'')
      | _ \<Rightarrow> Inr 0)"

definition arg_i32 :: "jsval list \<Rightarrow> nat \<Rightarrow> error + int" where
  "arg_i32 xs i = (case element xs i of Some v \<Rightarrow> ToInt32 v | None \<Rightarrow> Inr 0)"

definition example_add :: export where
  "example_add =
     Function (\<lambda>xs. case arg_i32 xs 0 of
                       Inl err \<Rightarrow> Inl err
                     | Inr a \<Rightarrow> (case arg_i32 xs 1 of
                                   Inl err \<Rightarrow> Inl err
                                 | Inr b \<Rightarrow> Inr (Number (wrap32 (a + b)) 0)))"

definition example_id :: export where
  "example_id =
     Function (\<lambda>xs. case arg_i32 xs 0 of Inl err \<Rightarrow> Inl err | Inr a \<Rightarrow> Inr (Number a 0))"

definition example_main :: export where
  "example_main = Function (\<lambda>xs. Inr (Number 42 0))"

definition exports_add :: exports where
  "exports_add = [''add'' \<mapsto> example_add]"

definition exports_main_add :: exports where
  "exports_main_add = [''main'' \<mapsto> example_add]"

definition exports_main_id :: exports where
  "exports_main_id = [''main'' \<mapsto> example_main, ''id'' \<mapsto> example_id]"

definition exports_other :: exports where
  "exports_other = [''memory'' \<mapsto> NotCallable, ''run'' \<mapsto> example_id]"

definition cli_2_3 :: "jsstring list" where
  "cli_2_3 = map ascii [''/usr/bin/node'', ''/work/run_wasm.js'', ''mod.bin'', ''2'', ''3'']"

definition cli_7 :: "jsstring list" where
  "cli_7 = map ascii [''/usr/bin/node'', ''/work/run_wasm.js'', ''mod.bin'', ''7'']"



definition cli_missing :: "jsstring list" where
  "cli_missing = map ascii [''/usr/bin/node'', ''/work/run_wasm.js'', ''missing.bin'']"

text \<open>A host with one file, \<^verbatim>\<open>mod.bin\<close>, whose module has the given exports.\<close>

definition module_host :: "exports \<Rightarrow> jsstring list \<Rightarrow> host" where
  "module_host module_exports cli =
     \<lparr>argv = cli,
      readFileSync = (\<lambda>p. if p = ascii ''mod.bin'' then Inr [0, 97, 115, 109, 1, 0, 0, 0]
                          else Inl (HostError ''ENOENT: no such file or directory'')),
      instantiate = (\<lambda>b. if take 4 b = [0, 97, 115, 109] then Inr module_exports
                         else Inl (HostError ''CompileError''))\<rparr>"

text \<open>The same with the module that exports \<^verbatim>\<open>add\<close>.\<close>

definition example_host :: "jsstring list \<Rightarrow> host" where
  "example_host cli =
     \<lparr>argv = cli,
      readFileSync = (\<lambda>p. if p = ascii ''mod.bin'' then Inr [0, 97, 115, 109, 1, 0, 0, 0]
                          else Inl (HostError ''ENOENT: no such file or directory'')),
      instantiate = (\<lambda>b. if take 4 b = [0, 97, 115, 109] then Inr exports_add
                         else Inl (HostError ''CompileError''))\<rparr>"

text \<open>
  A second host: another installation and working directory, other files around
  \<^verbatim>\<open>mod.bin\<close>, the same bytes in it and the same engine.
\<close>

definition other_host :: host where
  "other_host =
     \<lparr>argv = map ascii [''/opt/node/bin/node'', ''/srv/tools/run_wasm.js'', ''mod.bin'', ''2'',
                        ''3''],
      readFileSync = (\<lambda>p. if p = ascii ''mod.bin'' then Inr [0, 97, 115, 109, 1, 0, 0, 0]
                          else if p = ascii ''notes.txt'' then Inr [104, 105]
                          else Inl (HostError ''EACCES: permission denied'')),
      instantiate = instantiate (example_host [])\<rparr>"

section \<open>Properties\<close>

subsection \<open>Loading and name resolution\<close>

lemma parse_run_wasm_source: "parse run_wasm_source = js_return ()"
  by (simp add: run_wasm_source_def may_precede_name_def may_follow_name_def)

lemma parse_part_000_source: "parse part_000_source = js_throw (SyntaxError ''fn'')"
  by (simp add: part_000_source_def may_precede_name_def may_follow_name_def)

lemma progress_unbound: "''progress'' \<notin> set (node_globals @ [''fs''])"
  by (simp add: node_globals_def)

lemma bytes_unbound:
  "''bytes'' \<notin> set (node_globals @ [''fs'', ''wasmPath'', ''argStr'', ''byters''])"
  by (simp add: node_globals_def)

lemma wasmPath_unbound:
  "''wasmPath'' \<notin> set (node_globals @ [''fs'', ''wasPath'', ''argStrs''])"
  by (simp add: node_globals_def)

lemma WebAssemblyinstantiate_unbound:
  "''WebAssemblyinstantiate'' \<notin> set (node_globals @ [''fs'', ''wasPath'', ''argStrs'', ''bytes''])"
  by (simp add: node_globals_def)

lemma process_bound: "''process'' \<in> set (node_globals @ [''fs''])"
  by (simp add: node_globals_def)

lemma js_bind_throw: "js_bind (js_throw e) k = js_throw e"
  by (simp add: js_bind_def js_throw_def)

lemma js_bind_return: "js_bind (js_return v) k = k v"
  by (simp add: js_bind_def js_return_def split: prod.splits)

lemma run_wasm_body_throws: "run_wasm_body h = js_throw (ReferenceError ''progress'')"
  unfolding run_wasm_body_def ident_def using progress_unbound by (simp add: js_bind_throw)

lemma run_wasm_throws: "run_wasm h = js_throw (ReferenceError ''progress'')"
  by (simp add: run_wasm_def parse_run_wasm_source run_wasm_body_throws js_bind_return)

lemma part_000_body_throws: "part_000_body h = js_throw (ReferenceError ''wasmPath'')"
  unfolding part_000_body_def ident_def using wasmPath_unbound process_bound
  by (simp add: js_bind_throw js_bind_return)

lemma part_000_throws: "part_000 h = js_throw (SyntaxError ''fn'')"
  by (simp add: part_000_def parse_part_000_source js_bind_throw)

lemma ident_bytes_throws:
  "ident (node_globals @ [''fs'', ''wasmPath'', ''argStr'', ''byters'']) typed ''bytes'' =
     js_throw (ReferenceError ''bytes'')"
  unfolding ident_def using bytes_unbound by simp

lemma run_wasm_load_cases:
  "run_wasm_load h wasmPath argStr =
     (case wasmPath of
        None \<Rightarrow> ([], Inl (TypeError ''ERR_INVALID_ARG_TYPE''))
      | Some p \<Rightarrow>
          (case readFileSync h p of
             Inl e \<Rightarrow> ([FileRead p], Inl e)
           | Inr b \<Rightarrow> ([FileRead p], Inl (ReferenceError ''bytes''))))"
  unfolding run_wasm_load_def ident_bytes_throws
  by (simp add: fs_readFileSync_def js_bind_def js_throw_def split: option.splits sum.splits)

lemma ascii_eq_iff: "ascii s = ascii t \<longleftrightarrow> s = t"
proof -
  have "inj (of_char :: char \<Rightarrow> nat)"
    by (rule inj_of_char)
  then have "inj (map (of_char :: char \<Rightarrow> nat))"
    by simp
  then show ?thesis
    by (simp add: ascii_def inj_eq)
qed

subsection \<open>The steps after instantiation\<close>

lemma parseInt10_defined: "parseInt10 s \<noteq> Undefined"
  by (simp add: parseInt10_def Let_def split: option.splits)

lemma run_wasm_resolved_eq:
  "run_wasm_resolved e argStr =
     (case run_wasm_entry e of
        None \<Rightarrow> ([], Inl (Error ''No exported function named main/id''))
      | Some fn \<Rightarrow> js_bind (invoke fn (run_wasm_args argStr)) console_log_Result)"
  by (auto simp: run_wasm_resolved_def run_wasm_args_def truthy_def parseInt10_defined Let_def
      js_throw_def split: option.splits)

lemma run_and_report:
  "js_bind (invoke (Function f) args) console_log_Result =
     (case f args of
        Inl err \<Rightarrow> ([Called args], Inl err)
      | Inr v \<Rightarrow> ([Called args, Logged ''Result:'' v], Inr ()))"
  by (simp add: js_bind_def invoke_def console_log_Result_def split: sum.splits)

lemma run_and_report_NotCallable:
  "js_bind (invoke NotCallable args) console_log_Result =
     ([], Inl (TypeError ''fn is not a function''))"
  by (simp add: js_bind_def invoke_def js_throw_def)

lemma part_000_resolved_eq:
  "part_000_resolved e argStrs =
     (case part_000_entry e of
        None \<Rightarrow> ([], Inl (Error ''No exported function (main/id/add) found''))
      | Some fn \<Rightarrow> js_bind (invoke fn (map parseInt10 argStrs)) console_log_Result)"
  by (simp add: part_000_resolved_def part_000_invoke_def js_throw_def split: option.splits)

lemma run_wasm_entry_first_present: "run_wasm_entry e = first_present [''main'', ''id''] e"
  by (simp add: run_wasm_entry_def logical_or_def split: option.splits)

lemma part_000_entry_first_present:
  "part_000_entry e = first_present [''main'', ''id'', ''add''] e"
  by (simp add: part_000_entry_def logical_or_def split: option.splits)

lemma calls_run_and_report:
  "calls (js_bind (invoke (Function f) args) console_log_Result) = [args]"
  by (simp add: run_and_report calls_def split: sum.splits)

lemma calls_NotCallable: "calls (js_bind (invoke NotCallable args) console_log_Result) = []"
  by (simp add: run_and_report_NotCallable calls_def)

lemma calls_no_effect: "calls ([], r) = []"
  by (simp add: calls_def)

lemma calls_run_wasm_resolved: "length (calls (run_wasm_resolved e argStr)) \<le> 1"
proof (cases "run_wasm_entry e")
  case None
  then show ?thesis
    by (simp add: run_wasm_resolved_eq calls_no_effect)
next
  case (Some fn)
  then show ?thesis
    by (cases fn) (simp_all add: run_wasm_resolved_eq calls_run_and_report calls_NotCallable)
qed

lemma calls_part_000_resolved: "length (calls (part_000_resolved e argStrs)) \<le> 1"
proof (cases "part_000_entry e")
  case None
  then show ?thesis
    by (simp add: part_000_resolved_eq calls_no_effect)
next
  case (Some fn)
  then show ?thesis
    by (cases fn) (simp_all add: part_000_resolved_eq calls_run_and_report calls_NotCallable)
qed

lemma run_wasm_load_same:
  assumes "\<forall>p. wasmPath = Some p \<longrightarrow> readFileSync h1 p = readFileSync h2 p"
  shows "run_wasm_load h1 wasmPath argStr = run_wasm_load h2 wasmPath argStr"
  using assms by (simp add: run_wasm_load_cases split: option.splits)

lemma element_drop: "element (drop n xs) k = element xs (n + k)"
  by (simp add: element_def) (metis add.commute less_diff_conv)

subsection \<open>The scripts as they stand\<close>

text \<open>
  Claim C8. On every host, and so for every command line, \<^verbatim>\<open>run_wasm.js\<close> ends with the
  ReferenceError for \<^verbatim>\<open>progress\<close> on line 4, with no effect at all before it: no file is
  read, nothing is instantiated, called or printed, and the exit status is not 0. The
  second unbound name, \<^verbatim>\<open>bytes\<close> on line 6, stops lines 5 and 6 on their own account:
  whatever the path and the file, they end in an error with nothing instantiated.
\<close>

theorem run_wasm_always_ReferenceError:
  "run_wasm h = ([], Inl (ReferenceError ''progress'')) \<and>
   stdout (run_wasm h) = [] \<and>
   calls (run_wasm h) = [] \<and>
   exit_status (run_wasm h) \<noteq> 0 \<and>
   ident (node_globals @ [''fs'', ''wasmPath'', ''argStr'', ''byters'']) [(''byters'', byters)]
     ''bytes'' = ([], Inl (ReferenceError ''bytes'')) \<and>
   snd (run_wasm_load h wasmPath argStr) \<noteq> Inr () \<and>
   Instantiate b \<notin> set (fst (run_wasm_load h wasmPath argStr)) \<and>
   stdout (run_wasm_load h wasmPath argStr) = []"
  by (simp add: run_wasm_throws ident_bytes_throws js_throw_def stdout_def calls_def
      exit_status_def run_wasm_load_cases split: option.splits sum.splits)

text \<open>
  Claim C9. \<^verbatim>\<open>part_000\<close> does not parse: on line 7 the identifier \<^verbatim>\<open>fn\<close> follows the
  identifier \<^verbatim>\<open>coonst\<close>. On every host the run is the SyntaxError, with no effect: nothing
  is read, instantiated, called or printed. Were the file to parse, its body would stop
  at the unbound \<^verbatim>\<open>wasmPath\<close> on line 5, again with no effect, and
  \<^verbatim>\<open>WebAssemblyinstantiate\<close> on line 6 is unbound as well.
\<close>

theorem part_000_never_runs:
  "unexpected_identifier (part_000_source ! 5) = Some ''fn'' \<and>
   part_000 h = ([], Inl (SyntaxError ''fn'')) \<and>
   stdout (part_000 h) = [] \<and>
   calls (part_000 h) = [] \<and>
   part_000_body h = ([], Inl (ReferenceError ''wasmPath'')) \<and>
   ident (node_globals @ [''fs'', ''wasPath'', ''argStrs'', ''bytes'']) typed
     ''WebAssemblyinstantiate'' = ([], Inl (ReferenceError ''WebAssemblyinstantiate''))"
proof -
  have "unexpected_identifier (part_000_source ! 5) = Some ''fn''"
    by (simp add: part_000_source_def may_precede_name_def may_follow_name_def)
  moreover have "ident (node_globals @ [''fs'', ''wasPath'', ''argStrs'', ''bytes'']) typed
     ''WebAssemblyinstantiate'' = ([], Inl (ReferenceError ''WebAssemblyinstantiate''))"
    unfolding ident_def using WebAssemblyinstantiate_unbound by (simp add: js_throw_def)
  ultimately show ?thesis
    by (simp add: part_000_throws part_000_body_throws js_throw_def stdout_def calls_def)
qed

subsection \<open>What the scripts set out to do, and what a run does\<close>

text \<open>
  For each of the following claims the scripts hold the code that would do what the
  claim says, and no run reaches it. Each theorem is the run of both scripts on a host
  and a command line on which the claim asks for something else.
\<close>

text \<open>
  Claim C1. The module exports both \<^verbatim>\<open>main\<close> and \<^verbatim>\<open>id\<close>; the claim asks for \<^verbatim>\<open>main\<close> to
  be invoked. The entry expressions of the scripts are the spec's first-present lookup
  (lemmas \<open>run_wasm_entry_first_present\<close>, \<open>part_000_entry_first_present\<close>), but they are
  never evaluated: \<^verbatim>\<open>run_wasm.js\<close> ends with the ReferenceError of line 4 and \<^verbatim>\<open>part_000\<close>
  with the SyntaxError, and neither calls an export.
\<close>

theorem main_is_never_invoked:
  "readFileSync (module_host exports_main_id cli_7) (ascii ''mod.bin'') =
     Inr [0, 97, 115, 109, 1, 0, 0, 0] \<and>
   instantiate (module_host exports_main_id cli_7) [0, 97, 115, 109, 1, 0, 0, 0] =
     Inr exports_main_id \<and>
   exports_main_id ''main'' = Some example_main \<and>
   exports_main_id ''id'' = Some example_id \<and>
   run_wasm (module_host exports_main_id cli_7) = ([], Inl (ReferenceError ''progress'')) \<and>
   part_000 (module_host exports_main_id cli_7) = ([], Inl (SyntaxError ''fn'')) \<and>
   calls (run_wasm (module_host exports_main_id cli_7)) = [] \<and>
   calls (part_000 (module_host exports_main_id cli_7)) = []"
  by (simp add: run_wasm_throws part_000_throws js_throw_def calls_def module_host_def
      exports_main_id_def)

text \<open>
  Claim C2. The command line gives the two arguments 2 and 3 and the module exports a
  function of two arguments, as \<^verbatim>\<open>add\<close> for \<^verbatim>\<open>part_000\<close> and as \<^verbatim>\<open>main\<close> for
  \<^verbatim>\<open>run_wasm.js\<close>; the claim asks for one call with the two coerced values. Neither script
  calls anything: the runs end with the SyntaxError and the ReferenceError.
\<close>

theorem arguments_never_reach_export:
  "drop 3 (argv (example_host cli_2_3)) = [ascii ''2'', ascii ''3''] \<and>
   instantiate (example_host cli_2_3) [0, 97, 115, 109, 1, 0, 0, 0] = Inr exports_add \<and>
   exports_add ''add'' = Some example_add \<and>
   calls (part_000 (example_host cli_2_3)) = [] \<and>
   part_000 (example_host cli_2_3) = ([], Inl (SyntaxError ''fn'')) \<and>
   drop 3 (argv (module_host exports_main_add cli_2_3)) = [ascii ''2'', ascii ''3''] \<and>
   exports_main_add ''main'' = Some example_add \<and>
   calls (run_wasm (module_host exports_main_add cli_2_3)) = [] \<and>
   run_wasm (module_host exports_main_add cli_2_3) = ([], Inl (ReferenceError ''progress''))"
  by (simp add: run_wasm_throws part_000_throws js_throw_def calls_def module_host_def
      example_host_def cli_2_3_def exports_add_def exports_main_add_def)

text \<open>
  Claim C4. The module exports none of \<^verbatim>\<open>main\<close>, \<^verbatim>\<open>id\<close>, \<^verbatim>\<open>add\<close>; the claim asks for the
  error that lists the names tried. Both scripts hold that \<^verbatim>\<open>throw\<close> (line 11, line 8),
  and no run reaches it: the error of the run is the ReferenceError, the SyntaxError.
\<close>

theorem missing_entry_point_not_reported:
  "instantiate (module_host exports_other cli_7) [0, 97, 115, 109, 1, 0, 0, 0] =
     Inr exports_other \<and>
   exports_other ''main'' = None \<and> exports_other ''id'' = None \<and>
   exports_other ''add'' = None \<and>
   run_wasm (module_host exports_other cli_7) = ([], Inl (ReferenceError ''progress'')) \<and>
   snd (run_wasm (module_host exports_other cli_7)) \<noteq>
     Inl (Error ''No exported function named main/id'') \<and>
   part_000 (module_host exports_other cli_7) = ([], Inl (SyntaxError ''fn'')) \<and>
   snd (part_000 (module_host exports_other cli_7)) \<noteq>
     Inl (Error ''No exported function (main/id/add) found'')"
  by (simp add: run_wasm_throws part_000_throws js_throw_def module_host_def exports_other_def)

text \<open>
  Claim C5. The command line names a file that does not exist. What the claim asks for is
  the file system's error; what \<^verbatim>\<open>run_wasm.js\<close> gives is the ReferenceError of line 4 and
  what \<^verbatim>\<open>part_000\<close> gives is the SyntaxError, both before any attempt to read the file
  (the effect list is empty), and both the same as on a command line whose file exists.
\<close>

theorem missing_file_not_reported:
  "readFileSync (example_host cli_missing) (ascii ''missing.bin'') =
     Inl (HostError ''ENOENT: no such file or directory'') \<and>
   element (argv (example_host cli_missing)) 2 = Some (ascii ''missing.bin'') \<and>
   run_wasm (example_host cli_missing) = ([], Inl (ReferenceError ''progress'')) \<and>
   part_000 (example_host cli_missing) = ([], Inl (SyntaxError ''fn'')) \<and>
   run_wasm (example_host cli_2_3) = run_wasm (example_host cli_missing) \<and>
   part_000 (example_host cli_2_3) = part_000 (example_host cli_missing)"
  by (simp add: run_wasm_throws part_000_throws js_throw_def example_host_def cli_missing_def
      element_def ascii_eq_iff)

text \<open>
  Claim C6. The spec's two scenarios: the module exports \<^verbatim>\<open>add\<close> and the arguments are 2
  and 3, and the module exports \<^verbatim>\<open>id\<close> (beside \<^verbatim>\<open>main\<close>) and the argument is 7. The claim
  asks for one line \<^verbatim>\<open>Result: <value>\<close> and exit status 0. Both scripts hold the
  \<^verbatim>\<open>console.log('Result:', res)\<close> that would print it, and no run reaches it: stdout
  stays empty and the exit status is 1.
\<close>

theorem result_line_never_printed:
  "stdout (part_000 (example_host cli_2_3)) = [] \<and>
   exit_status (part_000 (example_host cli_2_3)) = 1 \<and>
   stdout (run_wasm (example_host cli_2_3)) = [] \<and>
   exit_status (run_wasm (example_host cli_2_3)) = 1 \<and>
   stdout (part_000 (module_host exports_main_id cli_7)) = [] \<and>
   exit_status (part_000 (module_host exports_main_id cli_7)) = 1 \<and>
   stdout (run_wasm (module_host exports_main_id cli_7)) = [] \<and>
   exit_status (run_wasm (module_host exports_main_id cli_7)) = 1"
  by (simp add: run_wasm_throws part_000_throws js_throw_def stdout_def exit_status_def)

subsection \<open>Argument tokens\<close>






subsection \<open>Coercion\<close>














subsection \<open>One run, one outcome\<close>

text \<open>
  Claim C7. A run is a function of the module and the arguments. Two hosts that agree on
  the command line from the path on, on what reading that path gives and on the engine
  get the same outcome from each script as a whole, and from lines 5 and 6 of
  \<^verbatim>\<open>run_wasm.js\<close>; the node binary, the script's location and the other files do not
  matter. The steps after instantiation depend on the export table through the candidate
  names alone. Nothing is tried twice: a run calls an export at most once, and lines 5 and
  6 leave at most one effect, the one read of the file.
\<close>

theorem one_shot_deterministic:
  "(drop 2 (argv h1) = drop 2 (argv h2) \<and>
    (\<forall>p. element (argv h1) 2 = Some p \<longrightarrow> readFileSync h1 p = readFileSync h2 p) \<and>
    instantiate h1 = instantiate h2 \<longrightarrow>
      run_wasm h1 = run_wasm h2 \<and> part_000 h1 = part_000 h2 \<and>
      run_wasm_load h1 (element (argv h1) 2) (element (argv h1) 3) =
        run_wasm_load h2 (element (argv h2) 2) (element (argv h2) 3)) \<and>
   (e1 ''main'' = e2 ''main'' \<and> e1 ''id'' = e2 ''id'' \<longrightarrow>
      run_wasm_resolved e1 argStr = run_wasm_resolved e2 argStr) \<and>
   (e1 ''main'' = e2 ''main'' \<and> e1 ''id'' = e2 ''id'' \<and> e1 ''add'' = e2 ''add'' \<longrightarrow>
      part_000_resolved e1 argStrs = part_000_resolved e2 argStrs) \<and>
   length (calls (run_wasm_resolved e1 argStr)) \<le> 1 \<and>
   length (calls (part_000_resolved e1 argStrs)) \<le> 1 \<and>
   length (fst (run_wasm_load h1 wasmPath argStr)) \<le> 1 \<and>
   length (calls (run_wasm h1)) \<le> 1 \<and> length (calls (part_000 h1)) \<le> 1"
proof (intro conjI impI)
  assume same: "drop 2 (argv h1) = drop 2 (argv h2) \<and>
    (\<forall>p. element (argv h1) 2 = Some p \<longrightarrow> readFileSync h1 p = readFileSync h2 p) \<and>
    instantiate h1 = instantiate h2"
  show "run_wasm h1 = run_wasm h2" and "part_000 h1 = part_000 h2"
    by (simp_all add: run_wasm_throws part_000_throws)
  from same have "element (drop 2 (argv h1)) k = element (drop 2 (argv h2)) k" for k
    by simp
  from this [of 0] this [of 1]
  have "element (argv h2) 2 = element (argv h1) 2" "element (argv h2) 3 = element (argv h1) 3"
    by (simp_all add: element_drop)
  with same show "run_wasm_load h1 (element (argv h1) 2) (element (argv h1) 3) =
        run_wasm_load h2 (element (argv h2) 2) (element (argv h2) 3)"
    by (simp add: run_wasm_load_same)
next
  assume "e1 ''main'' = e2 ''main'' \<and> e1 ''id'' = e2 ''id''"
  then show "run_wasm_resolved e1 argStr = run_wasm_resolved e2 argStr"
    by (simp add: run_wasm_resolved_eq run_wasm_entry_def)
next
  assume "e1 ''main'' = e2 ''main'' \<and> e1 ''id'' = e2 ''id'' \<and> e1 ''add'' = e2 ''add''"
  then show "part_000_resolved e1 argStrs = part_000_resolved e2 argStrs"
    by (simp add: part_000_resolved_eq part_000_entry_def)
next
  show "length (calls (run_wasm_resolved e1 argStr)) \<le> 1"
    by (rule calls_run_wasm_resolved)
  show "length (calls (part_000_resolved e1 argStrs)) \<le> 1"
    by (rule calls_part_000_resolved)
  show "length (fst (run_wasm_load h1 wasmPath argStr)) \<le> 1"
    by (simp add: run_wasm_load_cases split: option.splits sum.splits)
  show "length (calls (run_wasm h1)) \<le> 1" and "length (calls (part_000 h1)) \<le> 1"
    by (simp_all add: run_wasm_throws part_000_throws js_throw_def calls_def)
qed

theorem one_shot_deterministic_witness:
  "drop 2 (argv (example_host cli_2_3)) = drop 2 (argv other_host) \<and>
   argv (example_host cli_2_3) \<noteq> argv other_host \<and>
   readFileSync (example_host cli_2_3) (ascii ''notes.txt'') \<noteq>
     readFileSync other_host (ascii ''notes.txt'') \<and>
   element (argv (example_host cli_2_3)) 2 = Some (ascii ''mod.bin'') \<and>
   readFileSync (example_host cli_2_3) (ascii ''mod.bin'') =
     readFileSync other_host (ascii ''mod.bin'') \<and>
   instantiate (example_host cli_2_3) = instantiate other_host \<and>
   run_wasm (example_host cli_2_3) = run_wasm other_host \<and>
   part_000 (example_host cli_2_3) = part_000 other_host \<and>
   run_wasm_load (example_host cli_2_3) (Some (ascii ''mod.bin'')) (Some (ascii ''2'')) =
     run_wasm_load other_host (Some (ascii ''mod.bin'')) (Some (ascii ''2'')) \<and>
   exports_main_id ''main'' = (exports_main_id(''add'' \<mapsto> example_add)) ''main'' \<and>
   exports_main_id ''id'' = (exports_main_id(''add'' \<mapsto> example_add)) ''id'' \<and>
   run_wasm_resolved exports_main_id (Some (ascii ''7'')) =
     run_wasm_resolved (exports_main_id(''add'' \<mapsto> example_add)) (Some (ascii ''7''))"
  using one_shot_deterministic [of "example_host cli_2_3" other_host exports_main_id
      "exports_main_id(''add'' \<mapsto> example_add)" "Some (ascii ''7'')" "[]" None]
  by (simp add: example_host_def other_host_def cli_2_3_def element_def ascii_eq_iff)

end
